theory Spec2Isabelle
  imports Complex_Main "HOL-Library.AList"
begin

section \<open>Language classification engine of \<open>scripts/wakatime_api.py\<close>\<close>

text \<open>
  The development embeds \<open>process_language_data\<close> and the module constants it reads.

  Numbers: Python's \<open>total_seconds\<close> values (JSON numbers, int or float) are modelled as
  exact rationals. Python adds ints exactly, but a share or a percent is an IEEE double
  quotient, and a double sum or product is rounded: on \<open>[{"java", 1}, {"kotlin", 2},
  {"gradle", 4}]\<close> the code's redistributed parts are 4.666666666666666 and
  2.333333333333333 where the model has 14/3 and 7/3. The model therefore agrees with the
  code exactly where every intermediate value is exactly representable: whole numbers of
  seconds up to \<open>2^53\<close>, shares that are 0 or 1, and the exact quotients of the worked
  examples. A statement about all inputs whose truth depends on rounding carries
  hypotheses that confine it to such inputs. Overflow and NaN are not modelled.
  Labels are modelled as ASCII strings; \<open>str.lower\<close> and \<open>str.capitalize\<close> act on the
  letters A-Z / a-z only.
  A Python \<open>dict\<close> is an association list in insertion order with distinct keys:
  assigning to a present key keeps its position, assigning to an absent key appends
  (this is \<open>AList.update\<close>); \<open>dict.values()\<close> is \<open>map snd\<close>.
  The \<open>print\<close> calls are diagnostics and are left out.
\<close>

subsection \<open>Strings\<close>

definition lower_char :: "char \<Rightarrow> char" where
  "lower_char c =
     (let n = (of_char c :: nat) in if 65 \<le> n \<and> n \<le> 90 then char_of (n + 32) else c)"

definition upper_char :: "char \<Rightarrow> char" where
  "upper_char c =
     (let n = (of_char c :: nat) in if 97 \<le> n \<and> n \<le> 122 then char_of (n - 32) else c)"

text \<open>\<open>name.lower()\<close>\<close>

definition lower :: "string \<Rightarrow> string" where
  "lower s = map lower_char s"

text \<open>\<open>lang_key.capitalize()\<close>: first character upper-cased, the rest lower-cased.\<close>

definition capitalize :: "string \<Rightarrow> string" where
  "capitalize s = (case s of [] \<Rightarrow> [] | c # cs \<Rightarrow> upper_char c # map lower_char cs)"

subsection \<open>Module constants\<close>

definition MEANINGLESS_LANGUAGES :: "string set" where
  "MEANINGLESS_LANGUAGES =
     {''other'', ''others'', ''binary'', ''textmate'', ''text'', ''plaintext'',
      ''json'', ''yaml'', ''yml'', ''xml'', ''toml'', ''ini'', ''conf'', ''config'',
      ''markdown'', ''md'', ''txt'', ''log'', ''csv'', ''tsv'',
      ''git commit message'', ''git config'', ''git rebase'',
      ''tex'', ''latex'', ''bibtex'', ''xaml'', ''gitignore'', ''gitignore file'',
      ''batchfile'', ''batch'', ''class'',
      ''git'', ''pickle'', ''self'', ''sourcemap'', ''ssh config'', ''ssh_config'',
      ''diff'', ''prolog'', ''spi'', ''postscript'', ''asciidoc''}"

definition CMAKE_LANGUAGES :: "string set" where
  "CMAKE_LANGUAGES =
     {''cmake'', ''cmakelist'', ''cmakelists'', ''makefile'', ''make'', ''ninja'',
      ''microsoft visual studio solution'', ''msvs''}"

definition JUPYTER_LANGUAGES :: "string set" where
  "JUPYTER_LANGUAGES =
     {''jupyter'', ''jupyter notebook'', ''ipynb'', ''pythonstub'', ''python stub''}"

definition JAVA_RELATED :: "string set" where
  "JAVA_RELATED =
     {''java properties'', ''properties'', ''mixin_json_configuration'',
      ''mixin json configuration'', ''idea_module'', ''idea module'',
      ''access transformers''}"

definition GRADLE_TARGET_LANGUAGES :: "string set" where
  "GRADLE_TARGET_LANGUAGES = {''java'', ''kotlin'', ''groovy''}"

definition FRONTEND_LANGUAGES :: "string set" where
  "FRONTEND_LANGUAGES =
     {''javascript'', ''typescript'', ''html'', ''css'', ''scss'', ''sass'', ''less'',
      ''jsx'', ''tsx'', ''vue'', ''vue.js'', ''svelte'', ''tsconfig'', ''tsconfig.json''}"

definition SHELL_LANGUAGES :: "string set" where
  "SHELL_LANGUAGES =
     {''bash'', ''shell'', ''shellscript'', ''shell script'', ''sh'', ''zsh'', ''nix'',
      ''actionscript'', ''powershell'', ''pwsh'', ''docker'', ''dockerfile''}"

definition SHADER_LANGUAGES :: "string set" where
  "SHADER_LANGUAGES = {''glsl'', ''hlsl'', ''shaderlab'', ''f#''}"

text \<open>The three label sets written inline in the loop body.\<close>

definition GRADLE_LABELS :: "string set" where
  "GRADLE_LABELS = {''gradle'', ''groovy gradle''}"

definition OBJC_LABELS :: "string set" where
  "OBJC_LABELS = {''objective-c'', ''objectivec'', ''objective c'', ''objc''}"

definition C_JOINT_LABELS :: "string set" where
  "C_JOINT_LABELS = {''c/c++'', ''c/c'', ''c++/c''}"

subsection \<open>Data\<close>

text \<open>Raw entries and buckets are both \<open>{'name': ..., 'total_seconds': ...}\<close>.\<close>

record lang_entry =
  name :: string
  total_seconds :: rat

text \<open>An output entry adds \<open>'percent'\<close>.\<close>

record processed_entry = lang_entry +
  percent :: rat

type_synonym lang_dict = "(string \<times> lang_entry) list"

datatype error = ZeroDivisionError

text \<open>Python's true division raises on a zero divisor.\<close>

definition py_div :: "rat \<Rightarrow> rat \<Rightarrow> error + rat" where
  "py_div a b = (if b = 0 then Inl ZeroDivisionError else Inr (a / b))"

text \<open>
  The idiom
  \<^verbatim>\<open>if key not in language_dict: language_dict[key] = {'name': display, 'total_seconds': 0}\<close>
  \<^verbatim>\<open>language_dict[key]['total_seconds'] += seconds\<close>
\<close>

definition accumulate :: "string \<Rightarrow> string \<Rightarrow> rat \<Rightarrow> lang_dict \<Rightarrow> lang_dict" where
  "accumulate key display seconds d =
     (case map_of d key of
        None \<Rightarrow> AList.update key \<lparr>name = display, total_seconds = 0 + seconds\<rparr> d
      | Some b \<Rightarrow> AList.update key (b\<lparr>total_seconds := total_seconds b + seconds\<rparr>) d)"

subsection \<open>Pass 1: the Gradle distribution\<close>

definition gradle_target_step :: "(string \<times> rat) list \<Rightarrow> lang_entry \<Rightarrow> (string \<times> rat) list" where
  "gradle_target_step gts lang =
     (let name_lower = lower (name lang); seconds = total_seconds lang in
      if name_lower \<in> GRADLE_TARGET_LANGUAGES then AList.update name_lower seconds gts
      else gts)"

definition gradle_target_seconds :: "lang_entry list \<Rightarrow> (string \<times> rat) list" where
  "gradle_target_seconds raw_languages = foldl gradle_target_step [] raw_languages"

text \<open>The loop \<open>gradle_distribution[lang] = seconds / total_gradle_target\<close>.\<close>

fun gradle_shares :: "rat \<Rightarrow> (string \<times> rat) list \<Rightarrow> error + (string \<times> rat) list" where
  "gradle_shares total_gradle_target [] = Inr []"
| "gradle_shares total_gradle_target ((lang, seconds) # rest) =
     (case py_div seconds total_gradle_target of
        Inl e \<Rightarrow> Inl e
      | Inr r \<Rightarrow>
          (case gradle_shares total_gradle_target rest of
             Inl e \<Rightarrow> Inl e
           | Inr distribution \<Rightarrow> Inr ((lang, r) # distribution)))"

definition gradle_distribution :: "(string \<times> rat) list \<Rightarrow> error + (string \<times> rat) list" where
  "gradle_distribution gts =
     (let total_gradle_target = sum_list (map snd gts) in
      if total_gradle_target > 0 then gradle_shares total_gradle_target gts
      else Inr [(''java'', 1)])"

subsection \<open>Pass 2: classification\<close>

record pass2_state =
  language_dict :: lang_dict
  cmake_seconds :: rat
  gradle_seconds :: rat
  frontend_seconds :: rat
  jupyter_seconds :: rat
  java_related_seconds :: rat
  shell_seconds :: rat
  shader_seconds :: rat

definition pass2_init :: pass2_state where
  "pass2_init =
     \<lparr>language_dict = [], cmake_seconds = 0, gradle_seconds = 0, frontend_seconds = 0,
      jupyter_seconds = 0, java_related_seconds = 0, shell_seconds = 0, shader_seconds = 0\<rparr>"

definition pass2_step :: "pass2_state \<Rightarrow> lang_entry \<Rightarrow> pass2_state" where
  "pass2_step st lang =
     (let name_lower = lower (name lang); seconds = total_seconds lang in
      if name_lower \<in> MEANINGLESS_LANGUAGES then st
      else if name_lower \<in> CMAKE_LANGUAGES then
        st\<lparr>cmake_seconds := cmake_seconds st + seconds\<rparr>
      else if name_lower \<in> JUPYTER_LANGUAGES then
        st\<lparr>jupyter_seconds := jupyter_seconds st + seconds\<rparr>
      else if name_lower \<in> JAVA_RELATED then
        st\<lparr>java_related_seconds := java_related_seconds st + seconds\<rparr>
      else if name_lower \<in> GRADLE_LABELS then
        st\<lparr>gradle_seconds := gradle_seconds st + seconds\<rparr>
      else if name_lower \<in> FRONTEND_LANGUAGES then
        st\<lparr>frontend_seconds := frontend_seconds st + seconds\<rparr>
      else if name_lower \<in> SHELL_LANGUAGES then
        st\<lparr>shell_seconds := shell_seconds st + seconds\<rparr>
      else if name_lower \<in> SHADER_LANGUAGES then
        st\<lparr>shader_seconds := shader_seconds st + seconds\<rparr>
      else if name_lower \<in> OBJC_LABELS then
        st\<lparr>language_dict := accumulate ''objective-c'' ''Objective-C'' seconds (language_dict st)\<rparr>
      else if name_lower \<in> C_JOINT_LABELS then
        st\<lparr>language_dict := accumulate ''c'' ''C'' seconds (language_dict st)\<rparr>
      else
        st\<lparr>language_dict := accumulate name_lower (name lang) seconds (language_dict st)\<rparr>)"

definition pass2 :: "lang_entry list \<Rightarrow> pass2_state" where
  "pass2 raw_languages = foldl pass2_step pass2_init raw_languages"

subsection \<open>Finalization\<close>

text \<open>CMake, Jupyter and Java-related seconds are added to C++, Python and Java.\<close>

definition fold_merge_targets :: "pass2_state \<Rightarrow> lang_dict \<Rightarrow> lang_dict" where
  "fold_merge_targets st d =
     (let d1 = (if cmake_seconds st > 0 then accumulate ''c++'' ''C++'' (cmake_seconds st) d else d);
          d2 = (if jupyter_seconds st > 0
                then accumulate ''python'' ''Python'' (jupyter_seconds st) d1 else d1)
      in if java_related_seconds st > 0
         then accumulate ''java'' ''Java'' (java_related_seconds st) d2 else d2)"

text \<open>
  The three summaries are stored by plain assignment
  \<^verbatim>\<open>language_dict[frontend_key] = {'name': 'Frontend Langs', 'total_seconds': frontend_seconds}\<close>.
\<close>

definition add_summaries :: "pass2_state \<Rightarrow> lang_dict \<Rightarrow> lang_dict" where
  "add_summaries st d =
     (let d1 = (if frontend_seconds st > 0
                then AList.update ''frontend''
                       \<lparr>name = ''Frontend Langs'', total_seconds = frontend_seconds st\<rparr> d
                else d);
          d2 = (if shell_seconds st > 0
                then AList.update ''shell''
                       \<lparr>name = ''Shell Langs'', total_seconds = shell_seconds st\<rparr> d1
                else d1)
      in if shader_seconds st > 0
         then AList.update ''shader''
                \<lparr>name = ''Shader Langs'', total_seconds = shader_seconds st\<rparr> d2
         else d2)"

text \<open>Step 3: Gradle seconds are split by the shares of Pass 1.\<close>

definition distribute_step :: "rat \<Rightarrow> lang_dict \<Rightarrow> string \<times> rat \<Rightarrow> lang_dict" where
  "distribute_step gradle_secs d kr =
     (case kr of (lang_key, ratio) \<Rightarrow>
        accumulate lang_key (capitalize lang_key) (gradle_secs * ratio) d)"

definition distribute_gradle :: "pass2_state \<Rightarrow> (string \<times> rat) list \<Rightarrow> lang_dict \<Rightarrow> lang_dict" where
  "distribute_gradle st distribution d =
     (if gradle_seconds st > 0 then foldl (distribute_step (gradle_seconds st)) d distribution else d)"

definition finalize :: "pass2_state \<Rightarrow> (string \<times> rat) list \<Rightarrow> lang_dict" where
  "finalize st distribution =
     distribute_gradle st distribution (add_summaries st (fold_merge_targets st (language_dict st)))"

subsection \<open>Step 4: totals, percentages, order\<close>

definition retained_total :: "lang_dict \<Rightarrow> rat" where
  "retained_total d = sum_list (map total_seconds (map snd d))"

definition percent_of :: "rat \<Rightarrow> rat \<Rightarrow> error + rat" where
  "percent_of seconds total_secs =
     (if total_secs > 0
      then (case py_div seconds total_secs of Inl e \<Rightarrow> Inl e | Inr q \<Rightarrow> Inr (q * 100))
      else Inr 0)"

fun build_processed :: "rat \<Rightarrow> lang_entry list \<Rightarrow> error + processed_entry list" where
  "build_processed total_secs [] = Inr []"
| "build_processed total_secs (lang_data # rest) =
     (case percent_of (total_seconds lang_data) total_secs of
        Inl e \<Rightarrow> Inl e
      | Inr p \<Rightarrow>
          (case build_processed total_secs rest of
             Inl e \<Rightarrow> Inl e
           | Inr out \<Rightarrow>
               Inr (\<lparr>name = name lang_data, total_seconds = total_seconds lang_data,
                     percent = p\<rparr> # out)))"

text \<open>
  \<open>sort(key=lambda x: x['total_seconds'], reverse=True)\<close> is a stable descending sort:
  entries with equal durations keep their order. \<open>sort_key\<close> on the negated duration
  is such a sort.
\<close>

definition sort_desc :: "processed_entry list \<Rightarrow> processed_entry list" where
  "sort_desc out = sort_key (\<lambda>x. - total_seconds x) out"

definition process_language_data :: "lang_entry list \<Rightarrow> error + processed_entry list" where
  "process_language_data raw_languages =
     (case gradle_distribution (gradle_target_seconds raw_languages) of
        Inl e \<Rightarrow> Inl e
      | Inr distribution \<Rightarrow>
          (let d = finalize (pass2 raw_languages) distribution in
           case build_processed (retained_total d) (map snd d) of
             Inl e \<Rightarrow> Inl e
           | Inr out \<Rightarrow> Inr (sort_desc out)))"

subsection \<open>Auxiliary notions for the statements\<close>

text \<open>
  A lowercased label reaches the default rule of Pass 2 (the final \<open>language_dict[name_lower]\<close>
  branch) when none of the ten earlier tests of the loop body accepts it.
\<close>

definition is_default :: "string \<Rightarrow> bool" where
  "is_default k \<longleftrightarrow>
     k \<notin> MEANINGLESS_LANGUAGES \<and> k \<notin> CMAKE_LANGUAGES \<and> k \<notin> JUPYTER_LANGUAGES \<and>
     k \<notin> JAVA_RELATED \<and> k \<notin> GRADLE_LABELS \<and> k \<notin> FRONTEND_LANGUAGES \<and>
     k \<notin> SHELL_LANGUAGES \<and> k \<notin> SHADER_LANGUAGES \<and> k \<notin> OBJC_LABELS \<and>
     k \<notin> C_JOINT_LABELS"

text \<open>The raw entries whose lowercased label is \<open>k\<close>, in input order.\<close>

definition occurrences :: "string \<Rightarrow> lang_entry list \<Rightarrow> lang_entry list" where
  "occurrences k raw_languages = filter (\<lambda>e. lower (name e) = k) raw_languages"





section \<open>Divisions never fail\<close>

lemma py_div_Inr: "b \<noteq> 0 \<Longrightarrow> py_div a b = Inr (a / b)"
  by (simp add: py_div_def)

lemma gradle_shares_Inr:
  "t \<noteq> 0 \<Longrightarrow> gradle_shares t gts = Inr (map (\<lambda>(l, s). (l, s / t)) gts)"
  by (induction gts) (auto simp: py_div_Inr)

lemma gradle_distribution_Inr:
  "gradle_distribution gts =
     Inr (if sum_list (map snd gts) > 0
          then map (\<lambda>(l, s). (l, s / sum_list (map snd gts))) gts
          else [(''java'', 1)])"
  by (simp add: gradle_distribution_def Let_def gradle_shares_Inr)

lemma percent_of_Inr:
  "percent_of s t = Inr (if t > 0 then s / t * 100 else 0)"
  by (simp add: percent_of_def py_div_Inr)

lemma build_processed_Inr:
  "build_processed t langs =
     Inr (map (\<lambda>b. \<lparr>name = name b, total_seconds = total_seconds b,
                     percent = (if t > 0 then total_seconds b / t * 100 else 0)\<rparr>) langs)"
  by (induction langs) (simp_all add: percent_of_Inr)

lemma process_language_data_Inr:
  assumes "gradle_distribution (gradle_target_seconds raw) = Inr ds"
  shows "process_language_data raw =
     Inr (sort_desc
            (map (\<lambda>b. \<lparr>name = name b, total_seconds = total_seconds b,
                         percent = (if retained_total (finalize (pass2 raw) ds) > 0
                                    then total_seconds b / retained_total (finalize (pass2 raw) ds) * 100
                                    else 0)\<rparr>)
                 (map snd (finalize (pass2 raw) ds))))"
  using assms by (simp add: process_language_data_def Let_def build_processed_Inr)


section \<open>Bucket maps\<close>



lemma map_of_accumulate_other:
  "k' \<noteq> k \<Longrightarrow> map_of (accumulate k disp s d) k' = map_of d k'"
  by (simp add: accumulate_def update_conv' split: option.splits)

lemma map_of_accumulate_same:
  "map_of (accumulate k disp s d) k =
     Some (case map_of d k of
             None \<Rightarrow> \<lparr>name = disp, total_seconds = s\<rparr>
           | Some b \<Rightarrow> b\<lparr>total_seconds := total_seconds b + s\<rparr>)"
  by (simp add: accumulate_def update_conv' split: option.splits)





section \<open>Sorting keeps sums\<close>




section \<open>Pass 1\<close>

lemma gradle_target_seconds_snoc:
  "gradle_target_seconds (raw @ [x]) = gradle_target_step (gradle_target_seconds raw) x"
  by (simp add: gradle_target_seconds_def)

lemma occurrences_snoc:
  "occurrences k (raw @ [x]) = occurrences k raw @ (if lower (name x) = k then [x] else [])"
  by (simp add: occurrences_def)

lemma keys_gradle_target_seconds:
  "fst ` set (gradle_target_seconds raw) \<subseteq> GRADLE_TARGET_LANGUAGES"
proof (induction raw rule: rev_induct)
  case Nil
  show ?case by (simp add: gradle_target_seconds_def)
next
  case (snoc x xs)
  then show ?case
    by (auto simp: gradle_target_seconds_snoc gradle_target_step_def Let_def dom_update)
qed

lemma distinct_gradle_target_seconds:
  "distinct (map fst (gradle_target_seconds raw))"
proof (induction raw rule: rev_induct)
  case Nil
  show ?case by (simp add: gradle_target_seconds_def)
next
  case (snoc x xs)
  then show ?case
    by (simp add: gradle_target_seconds_snoc gradle_target_step_def Let_def distinct_update)
qed

lemma gradle_target_seconds_last:
  assumes "k \<in> GRADLE_TARGET_LANGUAGES"
  shows "map_of (gradle_target_seconds raw) k =
     (if occurrences k raw = [] then None
      else Some (total_seconds (last (occurrences k raw))))"
proof (induction raw rule: rev_induct)
  case Nil
  show ?case by (simp add: gradle_target_seconds_def occurrences_def)
next
  case (snoc x xs)
  show ?case
  proof (cases "lower (name x) = k")
    case True
    with assms show ?thesis
      by (simp add: gradle_target_seconds_snoc gradle_target_step_def Let_def update_conv'
            occurrences_snoc)
  next
    case False
    with snoc.IH show ?thesis
      by (simp add: gradle_target_seconds_snoc gradle_target_step_def Let_def update_conv'
            occurrences_snoc)
  qed
qed

lemma keys_gradle_distribution:
  assumes "gradle_distribution gts = Inr ds"
  shows "fst ` set ds \<subseteq> insert ''java'' (fst ` set gts)"
proof (cases "0 < sum_list (map snd gts)")
  case True
  with assms have "ds = map (\<lambda>(l, s). (l, s / sum_list (map snd gts))) gts"
    by (simp add: gradle_distribution_Inr)
  then have "map fst ds = map fst gts"
    by (simp add: comp_def case_prod_unfold)
  then have "set (map fst ds) = set (map fst gts)"
    by simp
  then show ?thesis
    by auto
next
  case False
  with assms have "ds = [(''java'', 1)]"
    by (simp add: gradle_distribution_Inr)
  then show ?thesis by simp
qed

lemma keys_distribution_of_raw:
  assumes "gradle_distribution (gradle_target_seconds raw) = Inr ds"
  shows "fst ` set ds \<subseteq> GRADLE_TARGET_LANGUAGES"
proof -
  have "fst ` set ds \<subseteq> insert ''java'' (fst ` set (gradle_target_seconds raw))"
    by (rule keys_gradle_distribution [OF assms])
  also have "\<dots> \<subseteq> GRADLE_TARGET_LANGUAGES"
  proof -
    have "''java'' \<in> GRADLE_TARGET_LANGUAGES"
      by (simp add: GRADLE_TARGET_LANGUAGES_def)
    then show ?thesis
      using keys_gradle_target_seconds [of raw] by (simp only: insert_subset simp_thms)
  qed
  finally show ?thesis .
qed



lemma map_of_shares:
  "map_of (map (\<lambda>(l, s). (l, s / t)) gts) k = map_option (\<lambda>s. s / t) (map_of gts k)"
  for t :: rat
  by (induction gts) auto

section \<open>Pass 2\<close>

lemma pass2_snoc: "pass2 (raw @ [x]) = pass2_step (pass2 raw) x"
  by (simp add: pass2_def)









lemma pass2_step_default:
  "is_default (lower (name x)) \<Longrightarrow>
   pass2_step st x =
     st\<lparr>language_dict :=
          accumulate (lower (name x)) (name x) (total_seconds x) (language_dict st)\<rparr>"
  by (simp add: pass2_step_def Let_def is_default_def)

lemma pass2_step_other:
  "lower (name x) \<noteq> k \<Longrightarrow> k \<noteq> ''objective-c'' \<Longrightarrow> k \<noteq> ''c'' \<Longrightarrow>
   map_of (language_dict (pass2_step st x)) k = map_of (language_dict st) k"
  by (simp add: pass2_step_def Let_def map_of_accumulate_other)

lemma is_default_not_objc: "is_default k \<Longrightarrow> k \<noteq> ''objective-c''"
  by (auto simp: is_default_def OBJC_LABELS_def)

lemma pass2_default_bucket:
  assumes d: "is_default k" and c: "k \<noteq> ''c''"
  shows "map_of (language_dict (pass2 raw)) k =
     (if occurrences k raw = [] then None
      else Some \<lparr>name = name (hd (occurrences k raw)),
                 total_seconds = sum_list (map total_seconds (occurrences k raw))\<rparr>)"
proof (induction raw rule: rev_induct)
  case Nil
  show ?case by (simp add: pass2_def pass2_init_def occurrences_def)
next
  case (snoc x xs)
  show ?case
  proof (cases "lower (name x) = k")
    case True
    with d have "is_default (lower (name x))" by simp
    then have "map_of (language_dict (pass2 (xs @ [x]))) k =
        Some (case map_of (language_dict (pass2 xs)) k of
                None \<Rightarrow> \<lparr>name = name x, total_seconds = total_seconds x\<rparr>
              | Some b \<Rightarrow> b\<lparr>total_seconds := total_seconds b + total_seconds x\<rparr>)"
      using True by (simp add: pass2_snoc pass2_step_default map_of_accumulate_same)
    with snoc.IH True show ?thesis
      by (simp add: occurrences_snoc)
  next
    case False
    then have "map_of (language_dict (pass2 (xs @ [x]))) k = map_of (language_dict (pass2 xs)) k"
      using c is_default_not_objc [OF d] by (simp add: pass2_snoc pass2_step_other)
    with snoc.IH False show ?thesis
      by (simp add: occurrences_snoc)
  qed
qed

lemma target_is_default:
  "k \<in> GRADLE_TARGET_LANGUAGES \<Longrightarrow> is_default k \<and> k \<noteq> ''c''"
  unfolding GRADLE_TARGET_LANGUAGES_def
  by (auto simp: is_default_def MEANINGLESS_LANGUAGES_def CMAKE_LANGUAGES_def
        JUPYTER_LANGUAGES_def JAVA_RELATED_def GRADLE_LABELS_def FRONTEND_LANGUAGES_def
        SHELL_LANGUAGES_def SHADER_LANGUAGES_def OBJC_LABELS_def C_JOINT_LABELS_def)


section \<open>Finalization\<close>














lemma map_of_distribute_other:
  "k \<notin> fst ` set ds \<Longrightarrow> map_of (foldl (distribute_step g) d ds) k = map_of d k"
  by (induction ds arbitrary: d) (auto simp: distribute_step_def map_of_accumulate_other)

lemma map_of_distribute_gradle_other:
  "k \<notin> fst ` set ds \<Longrightarrow> map_of (distribute_gradle st ds d) k = map_of d k"
  by (simp add: distribute_gradle_def map_of_distribute_other)

lemma map_of_add_summaries_frontend:
  "0 < frontend_seconds st \<Longrightarrow>
   map_of (add_summaries st d) ''frontend'' =
     Some \<lparr>name = ''Frontend Langs'', total_seconds = frontend_seconds st\<rparr>"
  by (simp add: add_summaries_def Let_def update_conv')

lemma map_of_add_summaries_shell:
  "0 < shell_seconds st \<Longrightarrow>
   map_of (add_summaries st d) ''shell'' =
     Some \<lparr>name = ''Shell Langs'', total_seconds = shell_seconds st\<rparr>"
  by (simp add: add_summaries_def Let_def update_conv')

lemma map_of_add_summaries_shader:
  "0 < shader_seconds st \<Longrightarrow>
   map_of (add_summaries st d) ''shader'' =
     Some \<lparr>name = ''Shader Langs'', total_seconds = shader_seconds st\<rparr>"
  by (simp add: add_summaries_def Let_def update_conv')

lemma summary_keys_not_targets:
  "''frontend'' \<notin> GRADLE_TARGET_LANGUAGES" "''shell'' \<notin> GRADLE_TARGET_LANGUAGES"
  "''shader'' \<notin> GRADLE_TARGET_LANGUAGES"
  by (simp_all add: GRADLE_TARGET_LANGUAGES_def)

section \<open>The worked examples\<close>

text \<open>
  C3 (Gradle proportional split). On \<open>[{"java", 300}, {"kotlin", 100}, {"gradle", 200}]\<close>
  Pass 1 computes the shares 0.75 for java and 0.25 for kotlin, the retained total is 600,
  and the output is the Java bucket with 450 seconds and 75 percent followed by the Kotlin
  bucket with 150 seconds and 25 percent. Both buckets come from the default rule, so
  they are displayed with the raw casing of their labels, \<open>java\<close> and \<open>kotlin\<close>.
\<close>

theorem gradle_proportional_split:
  "gradle_distribution
      (gradle_target_seconds
         [\<lparr>name = ''java'', total_seconds = 300\<rparr>, \<lparr>name = ''kotlin'', total_seconds = 100\<rparr>,
          \<lparr>name = ''gradle'', total_seconds = 200\<rparr>])
     = Inr [(''java'', 3 / 4), (''kotlin'', 1 / 4)]
   \<and> retained_total
        (finalize
           (pass2 [\<lparr>name = ''java'', total_seconds = 300\<rparr>,
                   \<lparr>name = ''kotlin'', total_seconds = 100\<rparr>,
                   \<lparr>name = ''gradle'', total_seconds = 200\<rparr>])
           [(''java'', 3 / 4), (''kotlin'', 1 / 4)]) = 600
   \<and> process_language_data
        [\<lparr>name = ''java'', total_seconds = 300\<rparr>, \<lparr>name = ''kotlin'', total_seconds = 100\<rparr>,
         \<lparr>name = ''gradle'', total_seconds = 200\<rparr>]
     = Inr [\<lparr>name = ''java'', total_seconds = 450, percent = 75\<rparr>,
            \<lparr>name = ''kotlin'', total_seconds = 150, percent = 25\<rparr>]"
  by code_simp

text \<open>
  C5 (aggregate grouping), as stated: on \<open>[{"javascript", 50}, {"css", 50}, {"python", 100}]\<close>
  the output would consist of \<open>{"Frontend Langs", 100, 50.0}\<close> and \<open>{"Python", 100, 50.0}\<close>.
  It does not, in either order: the default rule keeps the raw casing \<open>python\<close>.
\<close>

theorem aggregate_grouping_as_stated_fails:
  "process_language_data
     [\<lparr>name = ''javascript'', total_seconds = 50\<rparr>, \<lparr>name = ''css'', total_seconds = 50\<rparr>,
      \<lparr>name = ''python'', total_seconds = 100\<rparr>]
     \<noteq> Inr [\<lparr>name = ''Frontend Langs'', total_seconds = 100, percent = 50\<rparr>,
             \<lparr>name = ''Python'', total_seconds = 100, percent = 50\<rparr>]
   \<and> process_language_data
     [\<lparr>name = ''javascript'', total_seconds = 50\<rparr>, \<lparr>name = ''css'', total_seconds = 50\<rparr>,
      \<lparr>name = ''python'', total_seconds = 100\<rparr>]
     \<noteq> Inr [\<lparr>name = ''Python'', total_seconds = 100, percent = 50\<rparr>,
             \<lparr>name = ''Frontend Langs'', total_seconds = 100, percent = 50\<rparr>]"
  by code_simp

text \<open>
  C5 (aggregate grouping), amended: on \<open>[{"javascript", 50}, {"css", 50}, {"python", 100}]\<close>
  the output has exactly two entries, \<open>{"python", 100, 50.0}\<close> (displayed with the raw
  casing of its label) and \<open>{"Frontend Langs", 100, 50.0}\<close>, in this order.
\<close>

theorem aggregate_grouping:
  "process_language_data
     [\<lparr>name = ''javascript'', total_seconds = 50\<rparr>, \<lparr>name = ''css'', total_seconds = 50\<rparr>,
      \<lparr>name = ''python'', total_seconds = 100\<rparr>]
     = Inr [\<lparr>name = ''python'', total_seconds = 100, percent = 50\<rparr>,
            \<lparr>name = ''Frontend Langs'', total_seconds = 100, percent = 50\<rparr>]"
  by code_simp

text \<open>
  C6 (Gradle fallback). On \<open>[{"gradle", 100}]\<close>, with no Java, Kotlin or Groovy entry, the
  output is exactly the one entry \<open>{"Java", 100, 100.0}\<close>: all build-orchestrator seconds
  go to a newly created Java bucket.
\<close>

theorem gradle_fallback:
  "process_language_data [\<lparr>name = ''gradle'', total_seconds = 100\<rparr>]
     = Inr [\<lparr>name = ''Java'', total_seconds = 100, percent = 100\<rparr>]"
  by code_simp

text \<open>
  C9 (totality on empty input). On the empty raw list the function returns the empty list
  and raises nothing; and whenever the retained total is 0 the percent loop performs no
  division: it returns every bucket with percent 0, whatever the buckets are.
\<close>

theorem empty_input:
  "process_language_data [] = Inr []
   \<and> build_processed 0 buckets =
       Inr (map (\<lambda>b. \<lparr>name = name b, total_seconds = total_seconds b, percent = 0\<rparr>) buckets)"
proof
  show "process_language_data [] = Inr []"
    by code_simp
  show "build_processed 0 buckets =
       Inr (map (\<lambda>b. \<lparr>name = name b, total_seconds = total_seconds b, percent = 0\<rparr>) buckets)"
    by (simp add: build_processed_Inr)
qed

text \<open>
  C7 (case-insensitive dedup), as stated: default-case entries with case-insensitively equal
  labels would always sit in one bucket displayed with their first-seen casing. On
  \<open>[{"c/c++", 5}, {"c", 10}]\<close> the only default-case entry is \<open>c\<close>, but its bucket, keyed
  \<open>c\<close>, was created by the C/C++ joint-label rule: it is displayed \<open>C\<close> and holds 15 seconds.
\<close>

theorem default_rule_dedup_as_stated_fails:
  "is_default ''c''
   \<and> occurrences ''c'' [\<lparr>name = ''c/c++'', total_seconds = 5\<rparr>, \<lparr>name = ''c'', total_seconds = 10\<rparr>]
       = [\<lparr>name = ''c'', total_seconds = 10\<rparr>]
   \<and> map_of (language_dict
        (pass2 [\<lparr>name = ''c/c++'', total_seconds = 5\<rparr>, \<lparr>name = ''c'', total_seconds = 10\<rparr>])) ''c''
       = Some \<lparr>name = ''C'', total_seconds = 15\<rparr>
   \<and> map_of (language_dict
        (pass2 [\<lparr>name = ''c/c++'', total_seconds = 5\<rparr>, \<lparr>name = ''c'', total_seconds = 10\<rparr>])) ''c''
       \<noteq> Some \<lparr>name = ''c'', total_seconds = 10\<rparr>
   \<and> process_language_data
        [\<lparr>name = ''c/c++'', total_seconds = 5\<rparr>, \<lparr>name = ''c'', total_seconds = 10\<rparr>]
       = Inr [\<lparr>name = ''C'', total_seconds = 15, percent = 100\<rparr>]"
  by code_simp

text \<open>
  C7 (case-insensitive dedup with first-seen casing), amended. On
  \<open>[{"Rust", 10}, {"rust", 5}]\<close> the output is exactly \<open>{"Rust", 15, 100.0}\<close>. In general,
  for every lowercased label \<open>k\<close> that reaches the default rule, other than \<open>c\<close> (the key
  shared with the canonical C bucket), and every raw input with at least one entry
  labelled \<open>k\<close> up to case, Pass 2 ends with one bucket under \<open>k\<close> whose display name is
  the casing of the first such entry and whose duration is the sum over all of them.
\<close>

theorem default_rule_dedup:
  "process_language_data
     [\<lparr>name = ''Rust'', total_seconds = 10\<rparr>, \<lparr>name = ''rust'', total_seconds = 5\<rparr>]
     = Inr [\<lparr>name = ''Rust'', total_seconds = 15, percent = 100\<rparr>]
   \<and> (is_default k \<and> k \<noteq> ''c'' \<and> occurrences k raw \<noteq> [] \<longrightarrow>
        map_of (language_dict (pass2 raw)) k =
          Some \<lparr>name = name (hd (occurrences k raw)),
                 total_seconds = sum_list (map total_seconds (occurrences k raw))\<rparr>)"
proof
  show "process_language_data
     [\<lparr>name = ''Rust'', total_seconds = 10\<rparr>, \<lparr>name = ''rust'', total_seconds = 5\<rparr>]
     = Inr [\<lparr>name = ''Rust'', total_seconds = 15, percent = 100\<rparr>]"
    by code_simp
  show "is_default k \<and> k \<noteq> ''c'' \<and> occurrences k raw \<noteq> [] \<longrightarrow>
        map_of (language_dict (pass2 raw)) k =
          Some \<lparr>name = name (hd (occurrences k raw)),
                 total_seconds = sum_list (map total_seconds (occurrences k raw))\<rparr>"
    by (simp add: pass2_default_bucket)
qed

text \<open>The general part at \<open>k = rust\<close> on \<open>[{"Rust", 10}, {"rust", 5}]\<close>.\<close>

theorem default_rule_dedup_witness:
  "map_of (language_dict
      (pass2 [\<lparr>name = ''Rust'', total_seconds = 10\<rparr>, \<lparr>name = ''rust'', total_seconds = 5\<rparr>]))
      ''rust''
     = Some \<lparr>name = ''Rust'', total_seconds = 15\<rparr>"
proof -
  let ?raw = "[\<lparr>name = ''Rust'', total_seconds = 10\<rparr>, \<lparr>name = ''rust'', total_seconds = 5\<rparr>]"
  have d: "is_default ''rust''" by code_simp
  have c: "''rust'' \<noteq> ''c''" by simp
  have o: "occurrences ''rust'' ?raw = ?raw" by code_simp
  from default_rule_dedup [of "''rust''" ?raw] d c show ?thesis
    unfolding o by simp
qed

section \<open>Properties of every input\<close>




text \<open>
  C8 (output order). For every raw input the function returns an output sorted in
  descending order of \<open>total_seconds\<close>.
\<close>

theorem output_order:
  "\<exists>out. process_language_data raw = Inr out
     \<and> sorted_wrt (\<lambda>a b. total_seconds b \<le> total_seconds a) out"
proof -
  obtain ds where ds: "gradle_distribution (gradle_target_seconds raw) = Inr ds"
    by (simp add: gradle_distribution_Inr)
  have "sorted_wrt (\<lambda>a b. total_seconds b \<le> total_seconds a) (sort_desc xs)" for xs :: "processed_entry list"
  proof -
    have "sorted (map (\<lambda>x. - total_seconds x) (sort_desc xs))"
      unfolding sort_desc_def by (rule sorted_sort_key)
    then show ?thesis
      by (simp add: sorted_map)
  qed
  then show ?thesis
    by (simp add: process_language_data_Inr [OF ds])
qed

text \<open>
  C4 (synthetic buckets never merge). For every raw input, whenever the accumulated
  frontend (resp. shell, shader) seconds are positive, the finalized bucket map holds under
  the key \<open>frontend\<close> (resp. \<open>shell\<close>, \<open>shader\<close>) the bucket named \<open>Frontend Langs\<close>
  (resp. \<open>Shell Langs\<close>, \<open>Shader Langs\<close>) whose duration is exactly the accumulator:
  whatever bucket Pass 2 stored under that key is replaced, not added to, and the Gradle
  redistribution does not touch it.
\<close>

theorem synthetic_buckets_never_merge:
  "\<exists>ds. gradle_distribution (gradle_target_seconds raw) = Inr ds
     \<and> (0 < frontend_seconds (pass2 raw) \<longrightarrow>
          map_of (finalize (pass2 raw) ds) ''frontend'' =
            Some \<lparr>name = ''Frontend Langs'', total_seconds = frontend_seconds (pass2 raw)\<rparr>)
     \<and> (0 < shell_seconds (pass2 raw) \<longrightarrow>
          map_of (finalize (pass2 raw) ds) ''shell'' =
            Some \<lparr>name = ''Shell Langs'', total_seconds = shell_seconds (pass2 raw)\<rparr>)
     \<and> (0 < shader_seconds (pass2 raw) \<longrightarrow>
          map_of (finalize (pass2 raw) ds) ''shader'' =
            Some \<lparr>name = ''Shader Langs'', total_seconds = shader_seconds (pass2 raw)\<rparr>)"
proof -
  obtain ds where ds: "gradle_distribution (gradle_target_seconds raw) = Inr ds"
    by (simp add: gradle_distribution_Inr)
  note sub = keys_distribution_of_raw [OF ds]
  have out: "''frontend'' \<notin> fst ` set ds" "''shell'' \<notin> fst ` set ds" "''shader'' \<notin> fst ` set ds"
    by (rule contra_subsetD [OF sub summary_keys_not_targets(1)],
        rule contra_subsetD [OF sub summary_keys_not_targets(2)],
        rule contra_subsetD [OF sub summary_keys_not_targets(3)])
  show ?thesis
    using ds
    by (intro exI [of _ ds])
       (simp add: finalize_def map_of_distribute_gradle_other out
          map_of_add_summaries_frontend map_of_add_summaries_shell map_of_add_summaries_shader)
qed

text \<open>
  An input in which the default rule has already stored buckets under \<open>frontend\<close> (10
  seconds) and \<open>shader\<close> (7 seconds): the summaries hold 5, 3 and 2 seconds.
\<close>

theorem synthetic_buckets_never_merge_witness:
  "map_of (finalize
       (pass2 [\<lparr>name = ''frontend'', total_seconds = 10\<rparr>, \<lparr>name = ''javascript'', total_seconds = 5\<rparr>,
               \<lparr>name = ''Shader'', total_seconds = 7\<rparr>, \<lparr>name = ''glsl'', total_seconds = 2\<rparr>,
               \<lparr>name = ''bash'', total_seconds = 3\<rparr>])
       [(''java'', 1)]) ''frontend''
     = Some \<lparr>name = ''Frontend Langs'', total_seconds = 5\<rparr>
   \<and> map_of (finalize
       (pass2 [\<lparr>name = ''frontend'', total_seconds = 10\<rparr>, \<lparr>name = ''javascript'', total_seconds = 5\<rparr>,
               \<lparr>name = ''Shader'', total_seconds = 7\<rparr>, \<lparr>name = ''glsl'', total_seconds = 2\<rparr>,
               \<lparr>name = ''bash'', total_seconds = 3\<rparr>])
       [(''java'', 1)]) ''shell''
     = Some \<lparr>name = ''Shell Langs'', total_seconds = 3\<rparr>
   \<and> map_of (finalize
       (pass2 [\<lparr>name = ''frontend'', total_seconds = 10\<rparr>, \<lparr>name = ''javascript'', total_seconds = 5\<rparr>,
               \<lparr>name = ''Shader'', total_seconds = 7\<rparr>, \<lparr>name = ''glsl'', total_seconds = 2\<rparr>,
               \<lparr>name = ''bash'', total_seconds = 3\<rparr>])
       [(''java'', 1)]) ''shader''
     = Some \<lparr>name = ''Shader Langs'', total_seconds = 2\<rparr>"
proof -
  let ?raw = "[\<lparr>name = ''frontend'', total_seconds = 10\<rparr>, \<lparr>name = ''javascript'', total_seconds = 5\<rparr>,
               \<lparr>name = ''Shader'', total_seconds = 7\<rparr>, \<lparr>name = ''glsl'', total_seconds = 2\<rparr>,
               \<lparr>name = ''bash'', total_seconds = 3\<rparr>]"
  have d: "gradle_distribution (gradle_target_seconds ?raw) = Inr [(''java'', 1)]"
    by code_simp
  have f: "frontend_seconds (pass2 ?raw) = 5" by code_simp
  have s: "shell_seconds (pass2 ?raw) = 3" by code_simp
  have h: "shader_seconds (pass2 ?raw) = 2" by code_simp
  from synthetic_buckets_never_merge [of ?raw] show ?thesis
    unfolding d f s h by simp
qed

text \<open>
  C10 (Pass-1 duplicate handling). For every Gradle target language \<open>k\<close> (java, kotlin or
  groovy) and every raw input with at least one entry labelled \<open>k\<close> up to case: Pass 1
  records for \<open>k\<close> the duration of the last such entry only (its map has one entry per
  key), so when the recorded durations have a positive sum the share of \<open>k\<close> is that last
  duration divided by the sum; the Pass-2 bucket of \<open>k\<close> holds the sum of the durations
  of all such entries.
\<close>

theorem pass1_last_occurrence:
  assumes k: "k \<in> GRADLE_TARGET_LANGUAGES" and occ: "occurrences k raw \<noteq> []"
  shows "map_of (gradle_target_seconds raw) k = Some (total_seconds (last (occurrences k raw)))
     \<and> distinct (map fst (gradle_target_seconds raw))
     \<and> (\<exists>ds. gradle_distribution (gradle_target_seconds raw) = Inr ds
           \<and> (0 < sum_list (map snd (gradle_target_seconds raw)) \<longrightarrow>
                map_of ds k =
                  Some (total_seconds (last (occurrences k raw))
                          / sum_list (map snd (gradle_target_seconds raw)))))
     \<and> map_of (language_dict (pass2 raw)) k =
         Some \<lparr>name = name (hd (occurrences k raw)),
                total_seconds = sum_list (map total_seconds (occurrences k raw))\<rparr>"
proof -
  let ?gts = "gradle_target_seconds raw"
  let ?t = "sum_list (map snd ?gts)"
  have 1: "map_of ?gts k = Some (total_seconds (last (occurrences k raw)))"
    using gradle_target_seconds_last [OF k, of raw] occ by simp
  have 2: "distinct (map fst ?gts)"
    by (rule distinct_gradle_target_seconds)
  obtain ds where ds: "gradle_distribution ?gts = Inr ds"
    by (simp add: gradle_distribution_Inr)
  have 3: "map_of ds k = Some (total_seconds (last (occurrences k raw)) / ?t)" if "0 < ?t"
  proof -
    from ds that have "ds = map (\<lambda>(l, s). (l, s / ?t)) ?gts"
      by (simp add: gradle_distribution_Inr)
    then show ?thesis
      by (simp only: map_of_shares 1 option.map)
  qed
  have 4: "map_of (language_dict (pass2 raw)) k =
         Some \<lparr>name = name (hd (occurrences k raw)),
                total_seconds = sum_list (map total_seconds (occurrences k raw))\<rparr>"
    using target_is_default [OF k] occ by (simp add: pass2_default_bucket)
  from 1 2 ds 3 4 show ?thesis by blast
qed

text \<open>Java occurs twice, with 100 and then 300 seconds, beside Kotlin with 100.\<close>

theorem pass1_last_occurrence_witness:
  "map_of (gradle_target_seconds
      [\<lparr>name = ''java'', total_seconds = 100\<rparr>, \<lparr>name = ''kotlin'', total_seconds = 100\<rparr>,
       \<lparr>name = ''Java'', total_seconds = 300\<rparr>]) ''java'' = Some 300
   \<and> (\<exists>ds. gradle_distribution (gradle_target_seconds
      [\<lparr>name = ''java'', total_seconds = 100\<rparr>, \<lparr>name = ''kotlin'', total_seconds = 100\<rparr>,
       \<lparr>name = ''Java'', total_seconds = 300\<rparr>]) = Inr ds \<and> map_of ds ''java'' = Some (3 / 4))
   \<and> map_of (language_dict (pass2
      [\<lparr>name = ''java'', total_seconds = 100\<rparr>, \<lparr>name = ''kotlin'', total_seconds = 100\<rparr>,
       \<lparr>name = ''Java'', total_seconds = 300\<rparr>])) ''java''
       = Some \<lparr>name = ''java'', total_seconds = 400\<rparr>"
proof -
  let ?raw = "[\<lparr>name = ''java'', total_seconds = 100\<rparr>, \<lparr>name = ''kotlin'', total_seconds = 100\<rparr>,
       \<lparr>name = ''Java'', total_seconds = 300\<rparr>]"
  have k: "''java'' \<in> GRADLE_TARGET_LANGUAGES"
    by (simp add: GRADLE_TARGET_LANGUAGES_def)
  have o: "occurrences ''java'' ?raw
             = [\<lparr>name = ''java'', total_seconds = 100\<rparr>, \<lparr>name = ''Java'', total_seconds = 300\<rparr>]"
    by code_simp
  have s: "sum_list (map snd (gradle_target_seconds ?raw)) = 400"
    by code_simp
  from pass1_last_occurrence [OF k, of ?raw] show ?thesis
    unfolding o s by simp
qed

end
